theory Spec2Isabelle
  imports Main
begin

section \<open>Values, faults and observable effects\<close>

text \<open>
  The repository is an Express/Mongoose backend written in JavaScript. Its functions
  are embedded as HOL functions that return, next to their result, the list of effects
  they perform on their collaborators (the response object, the \<open>next\<close> callback, the
  console, the file system), in the order in which the effects happen.

  A JavaScript value that is used as a data payload:
\<close>

datatype json =
    JUndefined
  | JNull
  | JBool bool
  | JNum int
  | JStr string
  | JArr "json list"
  | JObj "(string \<times> json) list"

text \<open>
  Any value can be thrown, or be the reason of a rejection: \<open>undefined\<close>, \<open>null\<close>, a
  string, an object. A value is nullish when it is \<open>undefined\<close> or \<open>null\<close>, and reading
  a property of a nullish value throws. \<open>property v k\<close> is what \<open>v.k\<close> reads on a value
  that is not nullish, for the two properties the code reads, \<open>code\<close> and \<open>message\<close>:
  the entry of an object, and \<open>undefined\<close> when there is none.
\<close>

fun nullish :: "json \<Rightarrow> bool" where
  "nullish JUndefined = True"
| "nullish JNull = True"
| "nullish (JBool b) = False"
| "nullish (JNum n) = False"
| "nullish (JStr s) = False"
| "nullish (JArr xs) = False"
| "nullish (JObj kvs) = False"

fun property :: "json \<Rightarrow> string \<Rightarrow> json" where
  "property (JObj kvs) k = (case map_of kvs k of Some v \<Rightarrow> v | None \<Rightarrow> JUndefined)"
| "property JUndefined k = JUndefined"
| "property JNull k = JUndefined"
| "property (JBool b) k = JUndefined"
| "property (JNum n) k = JUndefined"
| "property (JStr s) k = JUndefined"
| "property (JArr xs) k = JUndefined"

text \<open>The values that count as true in \<open>a || b\<close>.\<close>

fun truthy :: "json \<Rightarrow> bool" where
  "truthy JUndefined = False"
| "truthy JNull = False"
| "truthy (JBool b) = b"
| "truthy (JNum n) = (n \<noteq> 0)"
| "truthy (JStr s) = (s \<noteq> [])"
| "truthy (JArr xs) = True"
| "truthy (JObj kvs) = True"

text \<open>
  The \<open>TypeError\<close> objects that the engine throws when a value that is not a function
  is called, and when a property of a nullish value is read.
\<close>

definition TypeError_not_a_function :: json where
  "TypeError_not_a_function = JObj [(''message'', JStr ''is not a function'')]"

definition TypeError_nullish :: json where
  "TypeError_nullish = JObj [(''message'', JStr ''Cannot read properties of a nullish value'')]"

text \<open>
  An error that a library reports (the file system, the database driver); \<open>code\<close> is
  \<open>None\<close> when the error has no numeric code.
\<close>

record fault =
  code :: "int option"
  message :: string

record request =
  body :: json

text \<open>
  The response object and the \<open>next\<close> callback are objects of the framework; they are
  identified by a number, and a call of one of their methods is an effect, recorded with
  the arguments of the call. \<open>next\<close> is taken to return normally, and so are
  \<open>res.status\<close> and \<open>res.json\<close> where the code calls them with constant arguments.
\<close>

type_synonym res = nat
type_synonym nxt = nat

datatype event =
    Res_status res json
  | Res_json res json
  | Next_call nxt json

text \<open>
  How a promise ends: it is fulfilled, it is rejected with a value, or it stays pending
  for ever. A call returns a value that is not a promise (\<open>Plain\<close>, for instance
  \<open>undefined\<close>) or a promise, or it throws a value synchronously.
\<close>

datatype settle = Fulfilled | Rejected json | Pending

datatype returned = Plain | Promise settle

datatype completion = Returned returned | Threw json

type_synonym handler = "request \<Rightarrow> res \<Rightarrow> nxt \<Rightarrow> event list \<times> completion"

text \<open>What \<open>asyncHandler\<close> receives and gives back: a function, or \<open>undefined\<close>.\<close>

datatype callable = Undefined | Function handler

text \<open>The call \<open>f(req, res, next)\<close>. Calling \<open>undefined\<close> throws a \<open>TypeError\<close>.\<close>

fun invoke :: "callable \<Rightarrow> request \<Rightarrow> res \<Rightarrow> nxt \<Rightarrow> event list \<times> completion" where
  "invoke Undefined req res next = ([], Threw TypeError_not_a_function)"
| "invoke (Function f) req res next = f req res next"

section \<open>The three versions of asyncHandler\<close>

text \<open>
  The first and the third version contain the same inner arrow function:
  \<^verbatim>\<open>
  (req, res, next) => {
      Promise.resolve(requestHandler(req, res, next))
      .catch((err) => next(err));
  }
  \<close>
  The argument of \<open>Promise.resolve\<close> is evaluated first: when \<open>requestHandler\<close> throws
  synchronously no promise exists yet and the exception leaves the function. Otherwise
  the function ends with \<open>undefined\<close> (its block has no \<open>return\<close>), and \<open>next(err)\<close>
  runs once if the promise is rejected.
\<close>

definition promise_bridge :: "callable \<Rightarrow> callable" where
  "promise_bridge requestHandler = Function (\<lambda>req res next.
     case invoke requestHandler req res next of
       (evs, Threw err) \<Rightarrow> (evs, Threw err)
     | (evs, Returned (Promise (Rejected err))) \<Rightarrow> (evs @ [Next_call next err], Returned Plain)
     | (evs, Returned (Promise Pending)) \<Rightarrow> (evs, Returned Plain)
     | (evs, Returned (Promise Fulfilled)) \<Rightarrow> (evs, Returned Plain)
     | (evs, Returned Plain) \<Rightarrow> (evs, Returned Plain))"

text \<open>
  The two versions differ in the block that is the body of the outer arrow function.
  A call of a function whose body is a block gives the value of the first \<open>return\<close>
  statement it reaches, and \<open>undefined\<close> when it reaches the end of the block.
\<close>

datatype statement = Expression_statement callable | Return_statement callable

fun call_block :: "statement list \<Rightarrow> callable" where
  "call_block [] = Undefined"
| "call_block (Expression_statement e # rest) = call_block rest"
| "call_block (Return_statement v # rest) = v"

text \<open>
  First version (Lesson 2):
  \<^verbatim>\<open>
  const asyncHandler = (requestHandler) => {
      (req, res, next) => {
          Promise.resolve(requestHandler(req, res, next))
          .catch((err) => next(err));
      }
  };
  \<close>
  The only statement of the outer block is an expression statement.
\<close>

definition asyncHandler_first :: "callable \<Rightarrow> callable" where
  "asyncHandler_first requestHandler =
     call_block [Expression_statement (promise_bridge requestHandler)]"

text \<open>
  Second version (Lesson 2):
  \<^verbatim>\<open>
  const asyncHandler = (fn) => async (req, res, next) => {
      try {
          await fn(req, res, next);
      } catch (error) {
          res.status(error.code || 500).json({
              success: false,
              message: error.message,
          });
      }
  };
  \<close>
  The \<open>catch\<close> block is not guarded itself. Reading \<open>error.code\<close> throws when the
  caught value is nullish, before any method of \<open>res\<close> is called. The status that is
  passed to \<open>res.status\<close> comes from the caught value, and the response may have been
  sent already: whether \<open>res.status\<close> and \<open>res.json\<close> return or throw is the
  framework's decision, a parameter here. \<open>reacts evs\<close> tells, for the effects \<open>evs\<close>
  performed so far, the last of which is a call of a method of \<open>res\<close>, whether that call
  returns (\<open>None\<close>) or throws (\<open>Some\<close> of the value thrown). What leaves the \<open>catch\<close>
  block rejects the promise of the \<open>async\<close> function.
\<close>

type_synonym framework = "event list \<Rightarrow> json option"

definition status_or_500 :: "json \<Rightarrow> json" where
  "status_or_500 error =
     (if truthy (property error ''code'') then property error ''code'' else JNum 500)"

definition fault_body :: "json \<Rightarrow> json" where
  "fault_body error =
     JObj [(''success'', JBool False), (''message'', property error ''message'')]"

definition catch_block :: "framework \<Rightarrow> event list \<Rightarrow> res \<Rightarrow> json \<Rightarrow> event list \<times> completion" where
  "catch_block reacts evs res error =
     (if nullish error then (evs, Returned (Promise (Rejected TypeError_nullish)))
      else
        (case reacts (evs @ [Res_status res (status_or_500 error)]) of
           Some thrown \<Rightarrow>
             (evs @ [Res_status res (status_or_500 error)], Returned (Promise (Rejected thrown)))
         | None \<Rightarrow>
             (case reacts (evs @ [Res_status res (status_or_500 error),
                                  Res_json res (fault_body error)]) of
                Some thrown \<Rightarrow>
                  (evs @ [Res_status res (status_or_500 error), Res_json res (fault_body error)],
                   Returned (Promise (Rejected thrown)))
              | None \<Rightarrow>
                  (evs @ [Res_status res (status_or_500 error), Res_json res (fault_body error)],
                   Returned (Promise Fulfilled)))))"

definition asyncHandler_second :: "framework \<Rightarrow> callable \<Rightarrow> callable" where
  "asyncHandler_second reacts fn = Function (\<lambda>req res next.
     case invoke fn req res next of
       (evs, Threw error) \<Rightarrow> catch_block reacts evs res error
     | (evs, Returned (Promise (Rejected error))) \<Rightarrow> catch_block reacts evs res error
     | (evs, Returned (Promise Pending)) \<Rightarrow> (evs, Returned (Promise Pending))
     | (evs, Returned (Promise Fulfilled)) \<Rightarrow> (evs, Returned (Promise Fulfilled))
     | (evs, Returned Plain) \<Rightarrow> (evs, Returned (Promise Fulfilled)))"

text \<open>
  Third version (Lecture 11, the one the controller imports):
  \<^verbatim>\<open>
  const asyncHandler = (requestHandler) => {
      return (req, res, next) => {
          Promise.resolve(requestHandler(req, res, next))
          .catch((err) => next(err));
      };
  }
  \<close>
\<close>

definition asyncHandler :: "callable \<Rightarrow> callable" where
  "asyncHandler requestHandler =
     call_block [Return_statement (promise_bridge requestHandler)]"

text \<open>
  The registration controller:
  \<^verbatim>\<open>
  const registerUser = asyncHandler(async (req, res) => {
      res.status(200).json({
          message: "ok"
      });
  });
  \<close>
  The inner function is \<open>async\<close>: it returns a promise, here a fulfilled one.
\<close>

definition registerUser_inner :: handler where
  "registerUser_inner req res next =
     ([Res_status res (JNum 200), Res_json res (JObj [(''message'', JStr ''ok'')])],
      Returned (Promise Fulfilled))"

definition registerUser :: callable where
  "registerUser = asyncHandler (Function registerUser_inner)"

text \<open>
  Two handlers used to run the wrappers on concrete inputs: one throws synchronously
  (it is not an \<open>async\<close> function), the other returns a promise that is rejected.
\<close>

definition boom :: json where
  "boom = JObj [(''message'', JStr ''boom'')]"

definition not_found :: json where
  "not_found = JObj [(''code'', JNum 404), (''message'', JStr ''boom'')]"

definition throwing_handler :: callable where
  "throwing_handler = Function (\<lambda>req res next. ([], Threw boom))"

definition rejecting_handler :: callable where
  "rejecting_handler =
     Function (\<lambda>req res next. ([], Returned (Promise (Rejected not_found))))"

text \<open>A framework whose response methods always return.\<close>

definition always_returns :: framework where
  "always_returns evs = None"

text \<open>How many faults a run forwards to the central fault handler through \<open>next\<close>.\<close>

fun is_forward :: "event \<Rightarrow> bool" where
  "is_forward (Next_call n e) = True"
| "is_forward (Res_status r c) = False"
| "is_forward (Res_json r b) = False"

definition forwarded :: "event list \<times> completion \<Rightarrow> nat" where
  "forwarded run = length (filter is_forward (fst run))"

text \<open>
  A run bridges a fault when exactly one fault is forwarded through \<open>next\<close> and the
  call neither throws nor hands a rejected promise back to the framework, which would
  not handle it.
\<close>

definition bridges_fault :: "event list \<times> completion \<Rightarrow> bool" where
  "bridges_fault run =
     (forwarded run = 1 \<and>
      (case snd run of
         Threw err \<Rightarrow> False
       | Returned (Promise (Rejected err)) \<Rightarrow> False
       | Returned other \<Rightarrow> True))"

section \<open>ApiError and ApiResponse\<close>

text \<open>
  \<^verbatim>\<open>
  class ApiError extends Error{
      constructor(statusCode, message = "Something Went Wrong", errors = [], stack = ""){
          super(message)
          this.statusCode = statusCode;
          this.errors = errors;
          this.data = null;
          this.message = message;
          this.success = false;
          if(stack){ this.stack = stack }
          else{ Error.captureStackTrace(this,this.constructor) }
      }
  }
  \<close>
  An argument that is omitted (or \<open>undefined\<close>) is \<open>None\<close> and takes the default of
  its parameter. The trace is the supplied one when it is a non-empty string, and the
  one captured at the construction otherwise.
\<close>

datatype stack_trace = Supplied string | Captured

record ApiError =
  statusCode :: int
  errors :: "json list"
  data :: json
  message :: string
  success :: bool
  stack :: stack_trace

definition new_ApiError ::
  "int \<Rightarrow> string option \<Rightarrow> json list option \<Rightarrow> string option \<Rightarrow> ApiError" where
  "new_ApiError status message_arg errors_arg stack_arg =
     (let msg = (case message_arg of None \<Rightarrow> ''Something Went Wrong'' | Some m \<Rightarrow> m);
          errs = (case errors_arg of None \<Rightarrow> [] | Some es \<Rightarrow> es);
          stk = (case stack_arg of None \<Rightarrow> [] | Some s \<Rightarrow> s)
      in \<lparr>ApiError.statusCode = status,
          ApiError.errors = errs,
          ApiError.data = JNull,
          ApiError.message = msg,
          ApiError.success = False,
          ApiError.stack = (if stk \<noteq> [] then Supplied stk else Captured)\<rparr>)"

text \<open>
  \<^verbatim>\<open>
  class ApiResponse {
      constructor(statusCode,data,message = "Success"){
          this.statusCode = statusCode;
          this.data = data;
          this.message = message
          this.success = statusCode < 400;
      }
  }
  \<close>
  The status code is a number; it is an integer here.
\<close>

record ApiResponse =
  statusCode :: int
  data :: json
  message :: string
  success :: bool

definition new_ApiResponse :: "int \<Rightarrow> json \<Rightarrow> string option \<Rightarrow> ApiResponse" where
  "new_ApiResponse status payload message_arg =
     (let msg = (case message_arg of None \<Rightarrow> ''Success'' | Some m \<Rightarrow> m)
      in \<lparr>ApiResponse.statusCode = status,
          ApiResponse.data = payload,
          ApiResponse.message = msg,
          ApiResponse.success = (status < 400)\<rparr>)"

section \<open>The media upload helper\<close>

text \<open>
  \<^verbatim>\<open>
  const uploadOnCloudinary = async (localFilePath) => {
      try {
          if (!localFilePath) return null;
          const response = await cloudinary.uploader.upload(localFilePath, {
              resource_type: "auto"
          });
          console.log("file is uploaded on cloudinary", response.url);
          return response;
      } catch (error) {
          fs.unlinkSync(localFilePath);
          return null;
      }
  };
  \<close>
  The file system is the list of the files that exist. \<open>fs.unlinkSync\<close> removes a file
  and throws \<open>ENOENT\<close> when there is no such file. The remote service is a parameter:
  \<open>upload path\<close> is what the awaited call of \<open>cloudinary.uploader.upload\<close> ends with.
  The path is \<open>None\<close> when the argument is absent; an absent and an empty path are
  falsy. The function is \<open>async\<close>: it ends with a promise that resolves to the
  response or to \<open>null\<close> (\<open>None\<close>), or that rejects when an exception leaves its body.
\<close>

record upload_response =
  url :: string

datatype io_event =
    Upload_call string
  | Console_log string
  | Unlink_call string

datatype upload_outcome = Resolves "upload_response option" | Rejects fault

definition ENOENT :: fault where
  "ENOENT = \<lparr>code = None, message = ''ENOENT: no such file or directory''\<rparr>"

definition unlinkSync :: "string list \<Rightarrow> string \<Rightarrow> fault + string list" where
  "unlinkSync files path =
     (if path \<in> set files then Inr (removeAll path files) else Inl ENOENT)"

definition uploadOnCloudinary ::
  "(string \<Rightarrow> fault + upload_response) \<Rightarrow> string list \<Rightarrow> string option
     \<Rightarrow> string list \<times> io_event list \<times> upload_outcome" where
  "uploadOnCloudinary upload files localFilePath =
     (case localFilePath of
        None \<Rightarrow> (files, [], Resolves None)
      | Some path \<Rightarrow>
          if path = [] then (files, [], Resolves None)
          else
            (case upload path of
               Inr response \<Rightarrow>
                 (files,
                  [Upload_call path,
                   Console_log (''file is uploaded on cloudinary '' @ url response)],
                  Resolves (Some response))
             | Inl error \<Rightarrow>
                 (case unlinkSync files path of
                    Inr files' \<Rightarrow> (files', [Upload_call path, Unlink_call path], Resolves None)
                  | Inl unlink_error \<Rightarrow>
                      (files, [Upload_call path, Unlink_call path], Rejects unlink_error))))"

text \<open>A remote upload of a file that is not on the disk: the library cannot read it.\<close>

definition missing_upload :: "string \<Rightarrow> fault + upload_response" where
  "missing_upload path = Inl ENOENT"

section \<open>The database bootstrap\<close>

text \<open>
  \<^verbatim>\<open>
  const connectDB = async ()=>{
      try {
          const connectionInstant = await mongoose.connect(`${process.env.MONGODB_URI}/${DB_NAME}`);
          console.log(`\n MongoDB connected !! DB HOST : ${connectionInstant.connection.host}`);
      } catch (error) {
          console.log("MONGODB connection Failed : ",error );
          process.exit(1);
      }
  }
  \<close>
  \<open>mongoose_connect\<close> is what the awaited call of \<open>mongoose.connect\<close> ends with for a
  given address; the environment variable and the constant \<open>DB_NAME\<close> (declared in
  \<open>constant.js\<close>) are parameters. The run ends with a fulfilled promise, with a rejected
  one, or with the end of the process and its exit code.
\<close>

record connection =
  host :: string

datatype db_event = Log string | Log_fault string fault

datatype db_outcome = Fulfils | Rejects_with fault | Exits int

definition connectDB ::
  "(string \<Rightarrow> fault + connection) \<Rightarrow> string option \<Rightarrow> string
     \<Rightarrow> db_event list \<times> db_outcome" where
  "connectDB mongoose_connect MONGODB_URI DB_NAME =
     (case mongoose_connect
             ((case MONGODB_URI of None \<Rightarrow> ''undefined'' | Some uri \<Rightarrow> uri) @ ''/'' @ DB_NAME) of
        Inr connectionInstant \<Rightarrow>
          ([Log (CHR 0x0A # '' MongoDB connected !! DB HOST : '' @ host connectionInstant)],
           Fulfils)
      | Inl error \<Rightarrow> ([Log_fault ''MONGODB connection Failed : '' error], Exits 1))"

definition refusing_connect :: "string \<Rightarrow> fault + connection" where
  "refusing_connect address = Inl \<lparr>code = None, message = ''connect ECONNREFUSED''\<rparr>"

section \<open>The Account record, its pre-save hook and its credential check\<close>

text \<open>
  The fields of the user schema, and the paths that the object mapper has marked as
  modified since the record was loaded or last saved.
\<close>

record account =
  username :: string
  email :: string
  fullName :: string
  avatar :: string
  coverImage :: "string option"
  password :: string
  watchHistory :: "nat list"
  refreshToken :: "string option"
  modifiedPaths :: "string list"

definition isModified :: "account \<Rightarrow> string \<Rightarrow> bool" where
  "isModified this path = (path \<in> set (modifiedPaths this))"

text \<open>
  \<^verbatim>\<open>
  userSchema.pre("save", async function(next) {
      if (!this.isModified("password")) return next();
      this.password = await bcrypt.hash(this.password, 10);
  });
  \<close>
  The hash library is a parameter: \<open>bcrypt_hash p c\<close> is what the awaited call
  \<open>bcrypt.hash(p, c)\<close> ends with. The effects are the calls of the library and of
  \<open>next\<close>, and the write of the record.
\<close>

datatype save_event = Hash_call string nat | Next_called | Write string

definition pre_save ::
  "(string \<Rightarrow> nat \<Rightarrow> string) \<Rightarrow> account \<Rightarrow> account \<times> save_event list" where
  "pre_save bcrypt_hash this =
     (if \<not> isModified this ''password'' then (this, [Next_called])
      else (this\<lparr>password := bcrypt_hash (password this) 10\<rparr>,
            [Hash_call (password this) 10]))"

text \<open>
  \<open>save\<close> is the object mapper's: it runs the hook, writes the record with the password
  the hook has left, and the saved record has no modified path.
\<close>

definition save ::
  "(string \<Rightarrow> nat \<Rightarrow> string) \<Rightarrow> account \<Rightarrow> account \<times> save_event list" where
  "save bcrypt_hash doc =
     (case pre_save bcrypt_hash doc of
        (doc', evs) \<Rightarrow> (doc'\<lparr>modifiedPaths := []\<rparr>, evs @ [Write (password doc')]))"

fun is_hash :: "save_event \<Rightarrow> bool" where
  "is_hash (Hash_call p c) = True"
| "is_hash Next_called = False"
| "is_hash (Write p) = False"

definition hash_calls :: "save_event list \<Rightarrow> nat" where
  "hash_calls evs = length (filter is_hash evs)"

text \<open>
  \<^verbatim>\<open>
  userSchema.methods.isPasswordCorrect = async function(password) {
      return await bcrypt.compare(password, this.password);
  }
  \<close>
  \<open>bcrypt_compare\<close> is the library's comparison; the method has no access to the
  library's hash function.
\<close>

definition isPasswordCorrect ::
  "(string \<Rightarrow> string \<Rightarrow> bool) \<Rightarrow> account \<Rightarrow> string \<Rightarrow> bool" where
  "isPasswordCorrect bcrypt_compare this candidate = bcrypt_compare candidate (password this)"

text \<open>Two records and a stand-in for the library's hash function, to run the hook.\<close>

definition new_account :: account where
  "new_account =
     \<lparr>username = ''john'', email = ''john@example.com'', fullName = ''John Doe'',
      avatar = ''http://res.cloudinary.com/a.png'', coverImage = None,
      password = ''secret'', watchHistory = [], refreshToken = None,
      modifiedPaths = [''username'', ''email'', ''fullName'', ''avatar'', ''password'']\<rparr>"

definition loaded_account :: account where
  "loaded_account = new_account\<lparr>password := ''$2b$10$terces'', modifiedPaths := [''email'']\<rparr>"

definition toy_hash :: "string \<Rightarrow> nat \<Rightarrow> string" where
  "toy_hash plain cost = ''$2b$10$'' @ rev plain"

text \<open>
  The hash library is outside the repository. What its documentation fixes is kept:
  a hash is the string \<open>$2b$\<close>, the cost in two digits, \<open>$\<close>, a salt of 22
  characters and a digest of 31 characters, 60 characters in all; only the first 72
  bytes of the input enter the digest; and the comparison computes the digest of the
  candidate with the cost and the salt it reads in the hash, and compares it with the
  digest it reads there. The digest function itself is a parameter, and so is the salt
  that \<open>bcrypt.hash\<close> draws at random.
\<close>

definition two_digits :: "nat \<Rightarrow> string" where
  "two_digits n = [char_of (48 + n div 10), char_of (48 + n mod 10)]"

definition read_two_digits :: "string \<Rightarrow> nat" where
  "read_two_digits s = 10 * (of_char (s ! 0) - 48) + (of_char (s ! 1) - 48)"

definition bcrypt_hash ::
  "(nat \<Rightarrow> string \<Rightarrow> string \<Rightarrow> string) \<Rightarrow> string \<Rightarrow> string \<Rightarrow> nat \<Rightarrow> string" where
  "bcrypt_hash digest salt plain cost =
     ''$2b$'' @ two_digits cost @ ''$'' @ salt @ digest cost salt (take 72 plain)"

definition bcrypt_compare ::
  "(nat \<Rightarrow> string \<Rightarrow> string \<Rightarrow> string) \<Rightarrow> string \<Rightarrow> string \<Rightarrow> bool" where
  "bcrypt_compare digest candidate hashed =
     (length hashed = 60 \<and>
      digest (read_two_digits (take 2 (drop 4 hashed))) (take 22 (drop 7 hashed))
        (take 72 candidate) = drop 29 hashed)"

text \<open>A stand-in for the digest, two salts, and a record with a password of 72 bytes.\<close>

definition toy_digest :: "nat \<Rightarrow> string \<Rightarrow> string \<Rightarrow> string" where
  "toy_digest cost salt key = take 31 (rev key @ salt @ replicate 31 (CHR ''.''))"

definition toy_salt :: string where
  "toy_salt = ''abcdefghijklmnopqrstuv''"

definition other_salt :: string where
  "other_salt = ''ABCDEFGHIJKLMNOPQRSTUV''"

definition long_account :: account where
  "long_account = new_account\<lparr>password := replicate 72 (CHR ''a'')\<rparr>"

section \<open>Properties of asyncHandler\<close>

text \<open>
  C10. For every request handler, the first version of asyncHandler evaluates to
  undefined and not to a function, because its block ends without a \<open>return\<close>
  (the third version, with the \<open>return\<close>, gives the inner function). Calling the
  result as a handler performs no effect and throws a TypeError, whatever the arguments.
\<close>

theorem asyncHandler_first_undefined:
  "asyncHandler_first f = Undefined \<and>
   asyncHandler_first f \<noteq> promise_bridge f \<and>
   asyncHandler f = promise_bridge f \<and>
   invoke (asyncHandler_first f) req res next = ([], Threw TypeError_not_a_function)"
  by (simp add: asyncHandler_first_def asyncHandler_def promise_bridge_def)

lemma asyncHandler_invoke:
  "invoke (asyncHandler f) req res next =
     (case invoke f req res next of
        (evs, Threw err) \<Rightarrow> (evs, Threw err)
      | (evs, Returned (Promise (Rejected err))) \<Rightarrow> (evs @ [Next_call next err], Returned Plain)
      | (evs, Returned other) \<Rightarrow> (evs, Returned Plain))"
  by (simp add: asyncHandler_def promise_bridge_def
      split: prod.splits completion.splits returned.splits settle.splits)

text \<open>
  C5. For every request handler \<open>f\<close>, wrapping twice is the same handler as wrapping
  once (for the version that returns its inner function, and also for the first version,
  where both are \<open>undefined\<close>), and the wrapped handler calls \<open>f\<close> with the very
  \<open>req\<close>, \<open>res\<close> and \<open>next\<close> it was called with: its run is the run of
  \<open>f req res next\<close>, followed by \<open>next(err)\<close> when that run ends in a rejection.
\<close>

theorem asyncHandler_idempotent:
  "asyncHandler (asyncHandler f) = asyncHandler f \<and>
   asyncHandler_first (asyncHandler_first f) = asyncHandler_first f \<and>
   invoke (asyncHandler f) req res next =
     (case invoke f req res next of
        (evs, Threw err) \<Rightarrow> (evs, Threw err)
      | (evs, Returned (Promise (Rejected err))) \<Rightarrow> (evs @ [Next_call next err], Returned Plain)
      | (evs, Returned other) \<Rightarrow> (evs, Returned Plain))"
proof -
  have "promise_bridge (promise_bridge f) = promise_bridge f"
    unfolding promise_bridge_def [of "promise_bridge f"]
    unfolding promise_bridge_def [of f]
    by (auto simp: fun_eq_iff
        split: prod.splits completion.splits returned.splits settle.splits)
  then have "asyncHandler (asyncHandler f) = asyncHandler f"
    by (simp add: asyncHandler_def)
  then show ?thesis
    by (simp add: asyncHandler_first_def asyncHandler_invoke)
qed

text \<open>
  C9. For every request (so for every request body), the registration handler sets the
  status 200 and sends the JSON body \<open>{message: "ok"}\<close>, and does nothing else: the
  request is not read.
\<close>

theorem registerUser_ok:
  "invoke registerUser req res next =
     ([Res_status res (JNum 200), Res_json res (JObj [(''message'', JStr ''ok'')])],
      Returned Plain)"
  by (simp add: registerUser_def asyncHandler_def promise_bridge_def registerUser_inner_def)

text \<open>
  C1, as stated, fails: wrapped by the version that returns its inner function, a
  handler that throws synchronously forwards nothing through \<open>next\<close> and the exception
  leaves the wrapped call; wrapped by the second version, neither a synchronous throw
  nor a rejection is forwarded through \<open>next\<close>, even when the response methods return.
\<close>

theorem asyncHandler_bridge_counterexample:
  "\<not> bridges_fault (invoke (asyncHandler throwing_handler) \<lparr>body = JNull\<rparr> 0 1) \<and>
   \<not> bridges_fault
       (invoke (asyncHandler_second always_returns throwing_handler) \<lparr>body = JNull\<rparr> 0 1) \<and>
   \<not> bridges_fault
       (invoke (asyncHandler_second always_returns rejecting_handler) \<lparr>body = JNull\<rparr> 0 1)"
  by (simp add: bridges_fault_def forwarded_def asyncHandler_def promise_bridge_def
      asyncHandler_second_def catch_block_def throwing_handler_def rejecting_handler_def
      always_returns_def boom_def not_found_def)

lemma catch_block_forwarded:
  "forwarded (catch_block reacts evs res error) = forwarded (evs, c)"
  by (simp add: catch_block_def forwarded_def split: option.splits)

lemma asyncHandler_second_forwarded:
  "forwarded (invoke (asyncHandler_second reacts h) req res next) =
   forwarded (invoke h req res next)"
proof (cases "invoke h req res next")
  case (Pair evs c)
  then show ?thesis
    by (simp add: asyncHandler_second_def catch_block_forwarded [where c = c]
        split: completion.splits returned.splits settle.splits)
      (simp_all add: forwarded_def)
qed

text \<open>
  C1, amended. Wrapped by the version that returns its inner function, a handler whose
  promise is rejected with \<open>err\<close> has \<open>next(err)\<close> called exactly once, after its own
  effects, and the wrapped call returns \<open>undefined\<close>; a handler that throws
  synchronously is not caught: the exception leaves the wrapped call and the wrapper does
  not call \<open>next\<close>. The second version never calls \<open>next\<close> itself, whatever the handler
  and the framework do; a synchronous throw and a rejection are both caught, and when the
  caught value is not nullish and \<open>res.status\<close> and \<open>res.json\<close> return, the wrapper
  answers by itself with the status \<open>error.code || 500\<close> and the body
  \<open>{success: false, message: error.message}\<close>, and its promise is fulfilled.
\<close>

theorem asyncHandler_fault_paths:
  "(invoke f req res next = (evs, Returned (Promise (Rejected err))) \<longrightarrow>
      invoke (asyncHandler f) req res next = (evs @ [Next_call next err], Returned Plain)) \<and>
   (invoke g req res next = (evs', Threw err') \<longrightarrow>
      invoke (asyncHandler g) req res next = (evs', Threw err')) \<and>
   forwarded (invoke (asyncHandler_second reacts h) req res next) =
     forwarded (invoke h req res next) \<and>
   (invoke h req res next = (evs'', c) \<and>
    (c = Threw e \<or> c = Returned (Promise (Rejected e))) \<and>
    \<not> nullish e \<and>
    reacts (evs'' @ [Res_status res (status_or_500 e)]) = None \<and>
    reacts (evs'' @ [Res_status res (status_or_500 e), Res_json res (fault_body e)]) = None \<longrightarrow>
      invoke (asyncHandler_second reacts h) req res next =
        (evs'' @ [Res_status res (status_or_500 e), Res_json res (fault_body e)],
         Returned (Promise Fulfilled)))"
proof -
  have third: "invoke f req res next = (evs, Returned (Promise (Rejected err))) \<longrightarrow>
      invoke (asyncHandler f) req res next = (evs @ [Next_call next err], Returned Plain)"
    by (simp add: asyncHandler_def promise_bridge_def)
  have escapes: "invoke g req res next = (evs', Threw err') \<longrightarrow>
      invoke (asyncHandler g) req res next = (evs', Threw err')"
    by (simp add: asyncHandler_def promise_bridge_def)
  have answers: "invoke h req res next = (evs'', c) \<and>
    (c = Threw e \<or> c = Returned (Promise (Rejected e))) \<and>
    \<not> nullish e \<and>
    reacts (evs'' @ [Res_status res (status_or_500 e)]) = None \<and>
    reacts (evs'' @ [Res_status res (status_or_500 e), Res_json res (fault_body e)]) = None \<longrightarrow>
      invoke (asyncHandler_second reacts h) req res next =
        (evs'' @ [Res_status res (status_or_500 e), Res_json res (fault_body e)],
         Returned (Promise Fulfilled))"
    by (auto simp: asyncHandler_second_def catch_block_def)
  from third escapes answers show ?thesis
    by (simp only: asyncHandler_second_forwarded)
qed

theorem asyncHandler_fault_paths_witness:
  "invoke rejecting_handler \<lparr>body = JNull\<rparr> 0 1 = ([], Returned (Promise (Rejected not_found))) \<and>
   invoke throwing_handler \<lparr>body = JNull\<rparr> 0 1 = ([], Threw boom) \<and>
   invoke (asyncHandler rejecting_handler) \<lparr>body = JNull\<rparr> 0 1 =
     ([Next_call 1 not_found], Returned Plain) \<and>
   invoke (asyncHandler throwing_handler) \<lparr>body = JNull\<rparr> 0 1 = ([], Threw boom) \<and>
   forwarded (invoke (asyncHandler_second always_returns rejecting_handler) \<lparr>body = JNull\<rparr> 0 1) = 0 \<and>
   invoke (asyncHandler_second always_returns rejecting_handler) \<lparr>body = JNull\<rparr> 0 1 =
     ([Res_status 0 (JNum 404),
       Res_json 0 (JObj [(''success'', JBool False), (''message'', JStr ''boom'')])],
      Returned (Promise Fulfilled))"
proof -
  have rejects: "invoke rejecting_handler \<lparr>body = JNull\<rparr> 0 1 =
      ([], Returned (Promise (Rejected not_found)))"
    by (simp add: rejecting_handler_def)
  have throws: "invoke throwing_handler \<lparr>body = JNull\<rparr> 0 1 = ([], Threw boom)"
    by (simp add: throwing_handler_def)
  have object: "\<not> nullish not_found"
    by (simp add: not_found_def)
  have status: "status_or_500 not_found = JNum 404"
    by (simp add: status_or_500_def not_found_def)
  have body: "fault_body not_found =
      JObj [(''success'', JBool False), (''message'', JStr ''boom'')]"
    by (simp add: fault_body_def not_found_def)
  from asyncHandler_fault_paths [of rejecting_handler "\<lparr>body = JNull\<rparr>" 0 1 "[]" not_found
      throwing_handler "[]" boom always_returns rejecting_handler "[]"
      "Returned (Promise (Rejected not_found))" not_found]
    rejects throws object status body
  show ?thesis
    by (simp add: always_returns_def forwarded_def)
qed

section \<open>Properties of ApiError and ApiResponse\<close>

text \<open>
  C3. An ApiError constructed without a message has the message
  "Something Went Wrong" (and a supplied message is kept); whatever the arguments,
  \<open>errors\<close> is the empty list when it is omitted (and the supplied list otherwise),
  \<open>data\<close> is null, \<open>success\<close> is false and the status code is stored.
\<close>

theorem ApiError_defaults:
  "ApiError.message (new_ApiError status None errors_arg stack_arg) = ''Something Went Wrong'' \<and>
   ApiError.message (new_ApiError status (Some m) errors_arg stack_arg) = m \<and>
   ApiError.errors (new_ApiError status message_arg None stack_arg) = [] \<and>
   ApiError.errors (new_ApiError status message_arg (Some es) stack_arg) = es \<and>
   ApiError.data (new_ApiError status message_arg errors_arg stack_arg) = JNull \<and>
   ApiError.success (new_ApiError status message_arg errors_arg stack_arg) = False \<and>
   ApiError.statusCode (new_ApiError status message_arg errors_arg stack_arg) = status"
  by (simp add: new_ApiError_def Let_def)

text \<open>
  C4. An ApiResponse stores \<open>success = (statusCode < 400)\<close>, the message "Success"
  when none is given (and the given one otherwise), and the status code and the payload
  unchanged; the two examples of the specification evaluate as it says.
\<close>

theorem ApiResponse_fields:
  "ApiResponse.success (new_ApiResponse status payload message_arg) = (status < 400) \<and>
   ApiResponse.message (new_ApiResponse status payload None) = ''Success'' \<and>
   ApiResponse.message (new_ApiResponse status payload (Some m)) = m \<and>
   ApiResponse.statusCode (new_ApiResponse status payload message_arg) = status \<and>
   ApiResponse.data (new_ApiResponse status payload message_arg) = payload \<and>
   new_ApiResponse 200 (JObj [(''user'', JStr ''John Doe'')]) None =
     \<lparr>ApiResponse.statusCode = 200,
      ApiResponse.data = JObj [(''user'', JStr ''John Doe'')],
      ApiResponse.message = ''Success'',
      ApiResponse.success = True\<rparr> \<and>
   ApiResponse.success (new_ApiResponse 400 JNull (Some ''Bad Request'')) = False"
  by (simp add: new_ApiResponse_def Let_def)

section \<open>Properties of the media upload helper\<close>

text \<open>
  With an absent or empty path the helper resolves to null at once, without calling the
  remote service; when the remote upload fails and the local file exists, the file is
  removed and the helper resolves to null.
\<close>

lemma uploadOnCloudinary_absent:
  "uploadOnCloudinary upload files None = (files, [], Resolves None) \<and>
   uploadOnCloudinary upload files (Some []) = (files, [], Resolves None)"
  by (simp add: uploadOnCloudinary_def)

lemma uploadOnCloudinary_cleanup:
  "path \<noteq> [] \<Longrightarrow> upload path = Inl error \<Longrightarrow> path \<in> set files \<Longrightarrow>
   uploadOnCloudinary upload files (Some path) =
     (removeAll path files, [Upload_call path, Unlink_call path], Resolves None)"
  by (simp add: uploadOnCloudinary_def unlinkSync_def)

text \<open>
  C2 says that no exception surfaces to the caller when the remote upload fails. The
  cleanup in the \<open>catch\<close> block is itself unguarded: when the local file does not exist
  (which also makes the upload fail), \<open>fs.unlinkSync\<close> throws and the promise of the
  helper is rejected instead of resolving to null.
\<close>

theorem uploadOnCloudinary_unlink_throws:
  "uploadOnCloudinary missing_upload [] (Some ''public/temp/avatar.png'') =
     ([], [Upload_call ''public/temp/avatar.png'', Unlink_call ''public/temp/avatar.png''],
      Rejects ENOENT)"
  by (simp add: uploadOnCloudinary_def unlinkSync_def missing_upload_def)

section \<open>Properties of the database bootstrap\<close>

text \<open>
  C8. When the connection attempt fails, connectDB logs the fault and ends the process
  with the exit code 1, which is not zero; and whatever the connection attempt does,
  connectDB never ends with a rejected promise, so the caller never receives the fault.
\<close>

theorem connectDB_exits_on_failure:
  "(mongoose_connect ((case uri of None \<Rightarrow> ''undefined'' | Some u \<Rightarrow> u) @ ''/'' @ db) = Inl error \<longrightarrow>
      connectDB mongoose_connect uri db =
        ([Log_fault ''MONGODB connection Failed : '' error], Exits 1)) \<and>
   snd (connectDB mongoose_connect uri db) \<noteq> Rejects_with e"
  by (simp add: connectDB_def split: sum.splits)

theorem connectDB_exits_on_failure_witness:
  "refusing_connect (''mongodb://localhost:27017'' @ ''/'' @ ''videotube'') =
     Inl \<lparr>code = None, fault.message = ''connect ECONNREFUSED''\<rparr> \<and>
   connectDB refusing_connect (Some ''mongodb://localhost:27017'') ''videotube'' =
     ([Log_fault ''MONGODB connection Failed : ''
         \<lparr>code = None, fault.message = ''connect ECONNREFUSED''\<rparr>],
      Exits 1)"
  using connectDB_exits_on_failure [of refusing_connect "Some ''mongodb://localhost:27017''"
      "''videotube''" "\<lparr>code = None, fault.message = ''connect ECONNREFUSED''\<rparr>"]
  by (simp add: refusing_connect_def)

section \<open>Properties of the Account record\<close>

lemma save_unmodified:
  "\<not> isModified doc ''password'' \<Longrightarrow>
   save h doc = (doc\<lparr>modifiedPaths := []\<rparr>, [Next_called, Write (password doc)])"
  by (simp add: save_def pre_save_def)

lemma save_modified:
  "isModified doc ''password'' \<Longrightarrow>
   save h doc = (doc\<lparr>password := h (password doc) 10, modifiedPaths := []\<rparr>,
                 [Hash_call (password doc) 10, Write (h (password doc) 10)])"
  by (simp add: save_def pre_save_def)

lemma save_clears: "\<not> isModified (fst (save h doc)) path"
  by (simp add: save_def pre_save_def isModified_def)

text \<open>
  C6. For every Account record, the second of two saves in a row calls the hash
  function not at all and leaves the password as the first save stored it, so the two
  saves hash at most once; the hook is a no-op on a record whose password is not
  modified (it only calls \<open>next\<close>); and saving a record whose password is modified
  calls the hash function once, with the cost factor 10, and writes the hash.
\<close>

theorem pre_save_hashes_once:
  "hash_calls (snd (save h (fst (save h doc)))) = 0 \<and>
   password (fst (save h (fst (save h doc)))) = password (fst (save h doc)) \<and>
   hash_calls (snd (save h doc) @ snd (save h (fst (save h doc)))) \<le> 1 \<and>
   (\<not> isModified doc ''password'' \<longrightarrow>
      pre_save h doc = (doc, [Next_called])) \<and>
   (isModified doc' ''password'' \<longrightarrow>
      save h doc' = (doc'\<lparr>password := h (password doc') 10, modifiedPaths := []\<rparr>,
                    [Hash_call (password doc') 10, Write (h (password doc') 10)]))"
proof -
  have second: "save h (fst (save h doc)) =
      ((fst (save h doc))\<lparr>modifiedPaths := []\<rparr>, [Next_called, Write (password (fst (save h doc)))])"
    by (rule save_unmodified) (rule save_clears)
  have first: "hash_calls (snd (save h doc)) \<le> 1"
    by (cases "isModified doc ''password''") (simp_all add: save_modified save_unmodified hash_calls_def)
  have "hash_calls (snd (save h (fst (save h doc)))) = 0"
    by (simp add: second hash_calls_def)
  moreover have "password (fst (save h (fst (save h doc)))) = password (fst (save h doc))"
    by (simp add: second)
  moreover have "hash_calls (snd (save h doc) @ snd (save h (fst (save h doc)))) \<le> 1"
    using first by (simp add: second hash_calls_def)
  moreover have "\<not> isModified doc ''password'' \<longrightarrow> pre_save h doc = (doc, [Next_called])"
    by (simp add: pre_save_def)
  ultimately show ?thesis
    by (simp add: save_modified)
qed

theorem pre_save_hashes_once_witness:
  "\<not> isModified loaded_account ''password'' \<and>
   isModified new_account ''password'' \<and>
   pre_save toy_hash loaded_account = (loaded_account, [Next_called]) \<and>
   password (fst (save toy_hash new_account)) = ''$2b$10$terces'' \<and>
   snd (save toy_hash new_account) = [Hash_call ''secret'' 10, Write ''$2b$10$terces''] \<and>
   snd (save toy_hash (fst (save toy_hash new_account))) = [Next_called, Write ''$2b$10$terces'']"
proof -
  have unmodified: "\<not> isModified loaded_account ''password''"
    by (simp add: isModified_def loaded_account_def new_account_def)
  have modified: "isModified new_account ''password''"
    by (simp add: isModified_def new_account_def)
  note fact = pre_save_hashes_once [of toy_hash new_account new_account]
    pre_save_hashes_once [of toy_hash loaded_account new_account]
  from fact unmodified modified show ?thesis
    by (simp add: toy_hash_def new_account_def save_def pre_save_def isModified_def)
qed

text \<open>
  The comparison reads back the cost and the salt that the hash was made with.
\<close>

lemma bcrypt_compare_hash:
  assumes "length salt = 22" and "length (digest 10 salt (take 72 plain)) = 31"
  shows "bcrypt_compare digest candidate (bcrypt_hash digest salt plain 10) =
           (digest 10 salt (take 72 candidate) = digest 10 salt (take 72 plain))"
  using assms
  by (simp add: bcrypt_compare_def bcrypt_hash_def read_two_digits_def two_digits_def)

lemma bcrypt_hash_salt:
  assumes "length salt = 22" and "length salt' = 22"
    and "bcrypt_hash digest salt' plain cost = bcrypt_hash digest salt plain' cost"
  shows "salt' = salt"
  using assms by (simp add: bcrypt_hash_def)

text \<open>
  C7, as stated, fails: the check does not answer false for every input other than the
  plaintext. The library uses only the first 72 bytes of its input, so after a save
  that hashed a password of 72 bytes, the check answers true for that password followed
  by one more character.
\<close>

theorem isPasswordCorrect_truncation_counterexample:
  "isPasswordCorrect (bcrypt_compare toy_digest)
     (fst (save (bcrypt_hash toy_digest toy_salt) long_account))
     (password long_account @ ''b'') \<and>
   password long_account @ ''b'' \<noteq> password long_account"
proof -
  have modified: "isModified long_account ''password''"
    by (simp add: isModified_def long_account_def new_account_def)
  have stored: "password (fst (save (bcrypt_hash toy_digest toy_salt) long_account)) =
      bcrypt_hash toy_digest toy_salt (password long_account) 10"
    by (simp add: save_modified [OF modified])
  have "bcrypt_compare toy_digest (password long_account @ ''b'')
      (bcrypt_hash toy_digest toy_salt (password long_account) 10)"
    by (subst bcrypt_compare_hash)
      (simp_all add: toy_salt_def toy_digest_def long_account_def)
  then show ?thesis
    by (simp add: isPasswordCorrect_def stored)
qed

text \<open>
  C7, amended. After a save that hashed the plaintext (cost factor 10, any salt), the
  credential check answers what the library's comparison answers for the candidate and
  the stored hash: true exactly when the first 72 bytes of the candidate have, under
  the salt and the cost stored in the hash, the digest of the first 72 bytes of the
  plaintext. So it answers true for the plaintext, and for every candidate that agrees
  with the plaintext on the first 72 bytes. It does not hash the candidate anew and
  compare strings: a hash of the plaintext made with another salt is a different string
  from the stored one, and the check still accepts the plaintext.
\<close>

theorem isPasswordCorrect_after_save:
  assumes salted: "length salt = 22"
    and sized: "\<forall>cost s key. length (digest cost s key) = 31"
    and modified: "isModified doc ''password''"
  shows "isPasswordCorrect (bcrypt_compare digest)
           (fst (save (bcrypt_hash digest salt) doc)) candidate =
           (digest 10 salt (take 72 candidate) = digest 10 salt (take 72 (password doc))) \<and>
         isPasswordCorrect (bcrypt_compare digest)
           (fst (save (bcrypt_hash digest salt) doc)) (password doc) \<and>
         (take 72 candidate = take 72 (password doc) \<longrightarrow>
            isPasswordCorrect (bcrypt_compare digest)
              (fst (save (bcrypt_hash digest salt) doc)) candidate) \<and>
         (length salt' = 22 \<and> salt' \<noteq> salt \<longrightarrow>
            bcrypt_hash digest salt' (password doc) 10 \<noteq>
              password (fst (save (bcrypt_hash digest salt) doc)))"
proof -
  have stored: "password (fst (save (bcrypt_hash digest salt) doc)) =
      bcrypt_hash digest salt (password doc) 10"
    by (simp add: save_modified [OF modified])
  have check: "isPasswordCorrect (bcrypt_compare digest)
      (fst (save (bcrypt_hash digest salt) doc)) c =
      (digest 10 salt (take 72 c) = digest 10 salt (take 72 (password doc)))" for c
    using salted sized by (simp add: isPasswordCorrect_def stored bcrypt_compare_hash)
  have fresh: "length salt' = 22 \<and> salt' \<noteq> salt \<longrightarrow>
      bcrypt_hash digest salt' (password doc) 10 \<noteq>
        password (fst (save (bcrypt_hash digest salt) doc))"
    using salted bcrypt_hash_salt [of salt salt' digest "password doc" 10 "password doc"]
    by (auto simp: stored)
  from fresh show ?thesis
    by (simp add: check)
qed

theorem isPasswordCorrect_after_save_witness:
  "length toy_salt = 22 \<and>
   isModified new_account ''password'' \<and>
   isPasswordCorrect (bcrypt_compare toy_digest)
     (fst (save (bcrypt_hash toy_digest toy_salt) new_account)) ''secret'' \<and>
   \<not> isPasswordCorrect (bcrypt_compare toy_digest)
     (fst (save (bcrypt_hash toy_digest toy_salt) new_account)) ''Secret'' \<and>
   bcrypt_hash toy_digest other_salt ''secret'' 10 \<noteq>
     password (fst (save (bcrypt_hash toy_digest toy_salt) new_account))"
proof -
  have salted: "length toy_salt = 22"
    by (simp add: toy_salt_def)
  have sized: "\<forall>cost s key. length (toy_digest cost s key) = 31"
    by (auto simp: toy_digest_def min_def)
  have modified: "isModified new_account ''password''"
    by (simp add: isModified_def new_account_def)
  have plain: "password new_account = ''secret''"
    by (simp add: new_account_def)
  have other: "length other_salt = 22 \<and> other_salt \<noteq> toy_salt"
    by (simp add: other_salt_def toy_salt_def)
  have differ: "toy_digest 10 toy_salt (take 72 ''Secret'') \<noteq> toy_digest 10 toy_salt (take 72 ''secret'')"
    by (simp add: toy_digest_def)
  from isPasswordCorrect_after_save [OF salted sized modified,
      where candidate = "''Secret''" and salt' = other_salt]
    salted modified plain other differ
  show ?thesis
    by simp
qed

end
